theory Spec2Isabelle
  imports Main "HOL-Library.Code_Target_Nat"
begin

section \<open>JavaScript values and strings\<close>






definition lowerChar :: "char \<Rightarrow> char" where
  "lowerChar c =
     (case map_of (zip ''ABCDEFGHIJKLMNOPQRSTUVWXYZ'' ''abcdefghijklmnopqrstuvwxyz'') c of
        Some d \<Rightarrow> d
      | None \<Rightarrow> c)"

definition toLowerCase :: "string \<Rightarrow> string" where
  "toLowerCase s = map lowerChar s"


text \<open>\<open>s.split(sep)\<close> for a one-character separator: the empty string gives one empty piece.\<close>

fun split :: "char \<Rightarrow> string \<Rightarrow> string list" where
  "split sep [] = [[]]"
| "split sep (c # cs) =
     (if c = sep then [] # split sep cs
      else (case split sep cs of [] \<Rightarrow> [[c]] | w # ws \<Rightarrow> (c # w) # ws))"

text \<open>\<open>s.startsWith(p)\<close>.\<close>

definition startsWith :: "string \<Rightarrow> string \<Rightarrow> bool" where
  "startsWith s p = (take (length p) s = p)"

section \<open>AuthService\<close>







section \<open>String literals of the source\<close>

text \<open>The Chinese literals, as UTF-8 bytes. Each definition names the literal it stands for.\<close>

definition lit_file :: string where \<comment> \<open>the attribute key for the file's display name\<close>
  "lit_file = [CHR 0xE6, CHR 0x96, CHR 0x87, CHR 0xE4, CHR 0xBB, CHR 0xB6]"

definition lit_shopify_file_url :: string where \<comment> \<open>the attribute key "Shopify" + file + "URL"\<close>
  "lit_shopify_file_url = ''Shopify'' @ lit_file @ ''URL''"

definition lit_shopify_file_id :: string where \<comment> \<open>the attribute key "Shopify" + file + "ID"\<close>
  "lit_shopify_file_id = ''Shopify'' @ lit_file @ ''ID''"

definition lit_file_id :: string where \<comment> \<open>the attribute key file + "ID"\<close>
  "lit_file_id = lit_file @ ''ID''"

definition lit_not_uploaded :: string where \<comment> \<open>the placeholder value: not uploaded\<close>
  "lit_not_uploaded = [CHR 0xE6, CHR 0x9C, CHR 0xAA, CHR 0xE4, CHR 0xB8, CHR 0x8A, CHR 0xE4, CHR 0xBC, CHR 0xA0]"

definition lit_unknown_file :: string where \<comment> \<open>the default display name: unknown file\<close>
  "lit_unknown_file = [CHR 0xE6, CHR 0x9C, CHR 0xAA, CHR 0xE7, CHR 0x9F, CHR 0xA5] @ lit_file"

definition lit_error_prefix :: string where \<comment> \<open>the prefix of a placeholder's name: error + underscore\<close>
  "lit_error_prefix = [CHR 0xE9, CHR 0x94, CHR 0x99, CHR 0xE8, CHR 0xAF, CHR 0xAF] @ ''_''"

definition lit_download_failed :: string where \<comment> \<open>download failed\<close>
  "lit_download_failed = [CHR 0xE4, CHR 0xB8, CHR 0x8B, CHR 0xE8, CHR 0xBD, CHR 0xBD, CHR 0xE5, CHR 0xA4, CHR 0xB1, CHR 0xE8, CHR 0xB4, CHR 0xA5]"

definition lit_metaobject_failed :: string where \<comment> \<open>fetching the file from the Metaobject failed\<close>
  "lit_metaobject_failed = [CHR 0xE4, CHR 0xBB, CHR 0x8E] @ ''Metaobject'' @
     [CHR 0xE8, CHR 0x8E, CHR 0xB7, CHR 0xE5, CHR 0x8F, CHR 0x96] @ lit_file @
     [CHR 0xE5, CHR 0xA4, CHR 0xB1, CHR 0xE8, CHR 0xB4, CHR 0xA5]"

definition lit_query_order_failed :: string where \<comment> \<open>querying the order failed\<close>
  "lit_query_order_failed = [CHR 0xE6, CHR 0x9F, CHR 0xA5, CHR 0xE8, CHR 0xAF, CHR 0xA2, CHR 0xE8, CHR 0xAE, CHR 0xA2,
     CHR 0xE5, CHR 0x8D, CHR 0x95, CHR 0xE5, CHR 0xA4, CHR 0xB1, CHR 0xE8, CHR 0xB4, CHR 0xA5]"

definition lit_order_not_found :: string where \<comment> \<open>order not found\<close>
  "lit_order_not_found = [CHR 0xE8, CHR 0xAE, CHR 0xA2, CHR 0xE5, CHR 0x8D, CHR 0x95, CHR 0xE6, CHR 0x9C, CHR 0xAA,
     CHR 0xE6, CHR 0x89, CHR 0xBE, CHR 0xE5, CHR 0x88, CHR 0xB0]"

definition lit_no_files_found :: string where \<comment> \<open>no downloadable file found\<close>
  "lit_no_files_found = [CHR 0xE6, CHR 0x9C, CHR 0xAA, CHR 0xE6, CHR 0x89, CHR 0xBE, CHR 0xE5, CHR 0x88, CHR 0xB0,
     CHR 0xE5, CHR 0x8F, CHR 0xAF, CHR 0xE4, CHR 0xB8, CHR 0x8B, CHR 0xE8, CHR 0xBD, CHR 0xBD, CHR 0xE7, CHR 0x9A, CHR 0x84] @ lit_file"

definition lit_no_valid_links :: string where \<comment> \<open>no valid file link was found in the order\<close>
  "lit_no_valid_links = [CHR 0xE8, CHR 0xAE, CHR 0xA2, CHR 0xE5, CHR 0x8D, CHR 0x95, CHR 0xE4, CHR 0xB8, CHR 0xAD,
     CHR 0xE6, CHR 0xB2, CHR 0xA1, CHR 0xE6, CHR 0x9C, CHR 0x89, CHR 0xE6, CHR 0x89, CHR 0xBE, CHR 0xE5, CHR 0x88, CHR 0xB0,
     CHR 0xE6, CHR 0x9C, CHR 0x89, CHR 0xE6, CHR 0x95, CHR 0x88, CHR 0xE7, CHR 0x9A, CHR 0x84] @ lit_file @
     [CHR 0xE9, CHR 0x93, CHR 0xBE, CHR 0xE6, CHR 0x8E, CHR 0xA5]"

definition lit_zip_unavailable :: string where \<comment> \<open>the ZIP packing function is unavailable\<close>
  "lit_zip_unavailable = ''ZIP'' @ [CHR 0xE6, CHR 0x89, CHR 0x93, CHR 0xE5, CHR 0x8C, CHR 0x85, CHR 0xE5, CHR 0x8A, CHR 0x9F,
     CHR 0xE8, CHR 0x83, CHR 0xBD, CHR 0xE4, CHR 0xB8, CHR 0x8D, CHR 0xE5, CHR 0x8F, CHR 0xAF, CHR 0xE7, CHR 0x94, CHR 0xA8]"

definition lit_install_jszip :: string where \<comment> \<open>please install the jszip dependency\<close>
  "lit_install_jszip = [CHR 0xE8, CHR 0xAF, CHR 0xB7, CHR 0xE5, CHR 0xAE, CHR 0x89, CHR 0xE8, CHR 0xA3, CHR 0x85] @ ''jszip'' @
     [CHR 0xE4, CHR 0xBE, CHR 0x9D, CHR 0xE8, CHR 0xB5, CHR 0x96] @ '': npm install jszip''"

definition lit_all_downloads_failed :: string where \<comment> \<open>all file downloads failed\<close>
  "lit_all_downloads_failed = [CHR 0xE6, CHR 0x89, CHR 0x80, CHR 0xE6, CHR 0x9C, CHR 0x89] @ lit_file @ lit_download_failed"

definition lit_success :: string where \<comment> \<open>succeeded\<close>
  "lit_success = [CHR 0xE6, CHR 0x88, CHR 0x90, CHR 0xE5, CHR 0x8A, CHR 0x9F]"

definition lit_failure :: string where \<comment> \<open>failed\<close>
  "lit_failure = [CHR 0xE5, CHR 0xA4, CHR 0xB1, CHR 0xE8, CHR 0xB4, CHR 0xA5]"

definition lit_batch_download_failed :: string where \<comment> \<open>batch download failed\<close>
  "lit_batch_download_failed = [CHR 0xE6, CHR 0x89, CHR 0xB9, CHR 0xE9, CHR 0x87, CHR 0x8F] @ lit_download_failed"

section \<open>Numbers and percent-encoding\<close>

text \<open>The decimal rendering of a non-negative integer in a template literal.\<close>

fun digits :: "nat \<Rightarrow> string" where
  "digits n =
     (if n < 10 then [''0123456789'' ! n]
      else digits (n div 10) @ [''0123456789'' ! (n mod 10)])"

declare digits.simps [simp del]

text \<open>
  \<open>encodeURIComponent\<close>: the unreserved characters stay, every other byte of the UTF-8
  encoding becomes a percent sign and two upper-case hexadecimal digits.
\<close>

definition uriUnreserved :: "char \<Rightarrow> bool" where
  "uriUnreserved c =
     (c \<in> set (''ABCDEFGHIJKLMNOPQRSTUVWXYZabcdefghijklmnopqrstuvwxyz0123456789-_.!~*()''
               @ [CHR 0x27]))"

definition hexDigit :: "nat \<Rightarrow> char" where
  "hexDigit n = ''0123456789ABCDEF'' ! n"

definition percentEncode :: "char \<Rightarrow> string" where
  "percentEncode c =
     (if uriUnreserved c then [c]
      else [CHR ''%'', hexDigit ((of_char c :: nat) div 16), hexDigit ((of_char c :: nat) mod 16)])"

definition encodeURIComponent :: "string \<Rightarrow> string" where
  "encodeURIComponent s = concat (map percentEncode s)"

section \<open>Requests, responses and the outside world\<close>

text \<open>
  A thrown exception is a value: \<open>Throws msg\<close> carries \<open>error.message\<close>.
\<close>

datatype 'a outcome = Throws string | Returns 'a

type_synonym bytes = "char list"

text \<open>A custom attribute or a metaobject field: a key and a value that may be \<open>null\<close>.\<close>

type_synonym attribute = "string \<times> string option"

record line_item =
  title :: string
  customAttributes :: "attribute list option"

record draft_order =
  name :: "string option"
  lineItems :: "line_item list"

record metaobject =
  mo_fields :: "attribute list"

text \<open>The three GraphQL documents the code sends, with their variables.\<close>

datatype gql_query =
    DraftOrderQuery string
  | MetaobjectByHandleQuery string string
  | MetaobjectsQuery string nat

text \<open>The \<open>data\<close> member of a GraphQL answer, by the field it carries.\<close>

datatype gql_data =
    DraftOrderData "draft_order option"
  | MetaobjectByHandleData "metaobject option"
  | MetaobjectsData "metaobject list"

record gql_json =
  gql_errors :: "string list option"
  gql_data :: "gql_data option"

text \<open>The answer of \<open>fetch(url)\<close>: the call throws, or gives a response whose body can be read or not.\<close>

datatype fetch_result =
    FetchThrows string
  | Response (ok: bool) (resp_status: nat) (statusText: string) (arrayBuffer: "bytes outcome")

text \<open>An external call the handler makes, in the order made.\<close>

datatype call = CallShopGql gql_query | CallFetch string

text \<open>
  Everything outside the handler: the environment variables, the GraphQL endpoint (by
  store domain, access token and query), the file server, the clock, the URL parser
  (\<open>new URL(s).origin\<close>, \<open>None\<close> when it throws), the base64 decoder of \<open>Buffer.from\<close>,
  whether the JSZip import gave a value, and the serializer \<open>generateAsync\<close>.
\<close>

datatype zip_content = Binary bytes | Text string

type_synonym archive = "(string \<times> zip_content) list"

record world =
  SHOPIFY_STORE_DOMAIN :: "string option"
  SHOP :: "string option"
  SHOPIFY_ACCESS_TOKEN :: "string option"
  ADMIN_TOKEN :: "string option"
  graphql :: "string \<Rightarrow> string \<Rightarrow> gql_query \<Rightarrow> gql_json outcome"
  fetch :: "string \<Rightarrow> fetch_result"
  Date_now :: nat
  URL_origin :: "string \<Rightarrow> string option"
  Buffer_from_base64 :: "string \<Rightarrow> bytes"
  JSZip :: bool
  generateAsync :: "archive \<Rightarrow> bytes"

record request =
  req_method :: string
  req_origin :: "string option"
  req_referer :: "string option"
  req_draftOrderId :: "string option"

datatype body = NoBody | JsonBody "(string \<times> string) list" | ZipBuffer archive

record response =
  status :: nat
  headers :: "(string \<times> string) list"
  body :: body

definition emptyResponse :: response where
  "emptyResponse = \<lparr>status = 200, headers = [], body = NoBody\<rparr>"

text \<open>\<open>res.setHeader\<close>: header names are case-insensitive and a second value replaces the first.\<close>

definition setHeader :: "string \<Rightarrow> string \<Rightarrow> response \<Rightarrow> response" where
  "setHeader k v res =
     res\<lparr>headers := filter (\<lambda>h. toLowerCase (fst h) \<noteq> toLowerCase k) (headers res) @ [(k, v)]\<rparr>"

definition getHeader :: "response \<Rightarrow> string \<Rightarrow> string option" where
  "getHeader res k = map_of (map (\<lambda>h. (toLowerCase (fst h), snd h)) (headers res)) (toLowerCase k)"

text \<open>\<open>a || b\<close> on strings that may be absent: the first that is present and not empty.\<close>

definition truthyS :: "string option \<Rightarrow> bool" where
  "truthyS v = (case v of None \<Rightarrow> False | Some s \<Rightarrow> s \<noteq> [])"

definition orS :: "string option \<Rightarrow> string option \<Rightarrow> string option" where
  "orS a b = (if truthyS a then a else b)"

section \<open>CORS headers\<close>

text \<open>The copy of \<open>setCorsHeaders\<close> that reads the Origin header only.\<close>

definition allowedOrigins_simple :: "string list" where
  "allowedOrigins_simple =
     [''https://sain-pdc-test.myshopify.com'',
      ''http://localhost:3000'',
      ''http://127.0.0.1:3000'',
      ''https://shopify-test-brown.vercel.app'']"

definition setCorsHeaders_simple :: "request \<Rightarrow> response \<Rightarrow> bool \<times> response" where
  "setCorsHeaders_simple req res =
     (let origin = req_origin req;
          res1 = (if truthyS origin \<and> the origin \<in> set allowedOrigins_simple
                  then setHeader ''Access-Control-Allow-Origin'' (the origin) res
                  else setHeader ''Access-Control-Allow-Origin'' ''https://sain-pdc-test.myshopify.com'' res);
          res2 = setHeader ''Access-Control-Allow-Methods'' ''GET,POST,OPTIONS'' res1;
          res3 = setHeader ''Access-Control-Allow-Headers'' ''Content-Type, Authorization'' res2;
          res4 = setHeader ''Access-Control-Allow-Credentials'' ''true'' res3;
          res5 = setHeader ''Access-Control-Max-Age'' ''86400'' res4;
          res6 = setHeader ''Vary'' ''Origin'' res5
      in (req_method req = ''OPTIONS'', res6))"

text \<open>The \<open>setCorsHeaders\<close> of cors-config.js: Origin first, then the origin of the Referer.\<close>

definition allowedOrigins :: "string list" where
  "allowedOrigins =
     [''https://sain-pdc-test.myshopify.com'',
      ''https://happy-july.myshopify.com'',
      ''http://localhost:3000'',
      ''http://127.0.0.1:3000'']"

definition requestOrigin :: "world \<Rightarrow> request \<Rightarrow> string" where
  "requestOrigin w req =
     (let headerOrigin = the (orS (req_origin req) (Some []));
          referer = the (orS (req_referer req) (Some []))
      in if headerOrigin = [] \<and> referer \<noteq> []
         then (case URL_origin w referer of None \<Rightarrow> headerOrigin | Some origin \<Rightarrow> origin)
         else headerOrigin)"

definition setCorsHeaders :: "world \<Rightarrow> request \<Rightarrow> string \<Rightarrow> response \<Rightarrow> response" where
  "setCorsHeaders w req allowedMethods res =
     (let origin = requestOrigin w req;
          allow = (if origin \<in> set allowedOrigins then origin else ''https://sain-pdc-test.myshopify.com'');
          res1 = setHeader ''Access-Control-Allow-Origin'' allow res;
          res2 = setHeader ''Vary'' ''Origin'' res1;
          res3 = setHeader ''Access-Control-Allow-Methods'' allowedMethods res2;
          res4 = setHeader ''Access-Control-Allow-Headers'' ''Content-Type, Authorization, X-Requested-With'' res3;
          res5 = setHeader ''Access-Control-Allow-Credentials'' ''true'' res4
      in setHeader ''Access-Control-Max-Age'' ''86400'' res5)"

section \<open>The download-order-files handler\<close>

text \<open>
  \<open>shopGql\<close>: without a store domain or an access token it answers with an error list
  and sends nothing; otherwise the answer (or the exception) is the endpoint's.
\<close>

definition shopGql :: "world \<Rightarrow> gql_query \<Rightarrow> gql_json outcome" where
  "shopGql w query =
     (let storeDomain = orS (SHOPIFY_STORE_DOMAIN w) (SHOP w);
          accessToken = orS (SHOPIFY_ACCESS_TOKEN w) (ADMIN_TOKEN w)
      in if \<not> truthyS storeDomain \<or> \<not> truthyS accessToken
         then Returns \<lparr>gql_errors = Some [''Missing SHOPIFY_STORE_DOMAIN or SHOPIFY_ACCESS_TOKEN''],
                        gql_data = None\<rparr>
         else graphql w (the storeDomain) (the accessToken) query)"

text \<open>\<open>downloadFileFromShopify\<close>: the bytes of the body, or the exception it rethrows.\<close>

definition downloadFileFromShopify :: "world \<Rightarrow> string \<Rightarrow> bytes outcome \<times> call list" where
  "downloadFileFromShopify w fileUrl =
     (case fetch w fileUrl of
        FetchThrows msg \<Rightarrow> Throws msg
      | Response isOk code txt buffer \<Rightarrow>
          if \<not> isOk then Throws (lit_download_failed @ '': '' @ digits code @ '' '' @ txt)
          else buffer,
      [CallFetch fileUrl])"

datatype file_info =
    UrlInfo (info_url: string) (info_fileName: string)
  | Base64Info (info_data: string) (info_fileName: string)

definition getField :: "metaobject \<Rightarrow> string \<Rightarrow> string option" where
  "getField fileRecord k =
     (case find (\<lambda>x. fst x = k) (mo_fields fileRecord) of
        Some f \<Rightarrow> snd f
      | None \<Rightarrow> Some [])"

text \<open>The end of \<open>getFileFromMetaobject\<close>, once a record is found: the CDN URL first, then the base64 data.\<close>

definition fileInfoOfRecord :: "metaobject \<Rightarrow> file_info option" where
  "fileInfoOfRecord fileRecord =
     (let fileUrl = getField fileRecord ''file_url'';
          fileData = getField fileRecord ''file_data'';
          fileName = the (orS (getField fileRecord ''file_name'') (Some ''download.bin''))
      in if truthyS fileUrl \<and> (startsWith (the fileUrl) ''http://'' \<or> startsWith (the fileUrl) ''https://'')
         then Some (UrlInfo (the fileUrl) fileName)
         else if truthyS fileData then Some (Base64Info (the fileData) fileName)
         else None)"

text \<open>\<open>handleResult?.data?.metaobjectByHandle || null\<close>, and \<open>null\<close> when the query throws.\<close>

definition recordByHandle :: "gql_json outcome \<Rightarrow> metaobject option" where
  "recordByHandle handleResult =
     (case handleResult of
        Throws err \<Rightarrow> None
      | Returns j \<Rightarrow> (case gql_data j of Some (MetaobjectByHandleData r) \<Rightarrow> r | _ \<Rightarrow> None))"

text \<open>\<open>result?.data?.metaobjects?.nodes || []\<close> searched for the node whose \<open>file_id\<close> field is the id.\<close>

definition recordFromList :: "gql_json outcome \<Rightarrow> string \<Rightarrow> metaobject option" where
  "recordFromList result fileId =
     (case result of
        Throws gqlErr \<Rightarrow> None
      | Returns j \<Rightarrow>
          (let nodes = (case gql_data j of Some (MetaobjectsData ns) \<Rightarrow> ns | _ \<Rightarrow> [])
           in find (\<lambda>node. case find (\<lambda>x. fst x = ''file_id'') (mo_fields node) of
                              None \<Rightarrow> False
                            | Some f \<Rightarrow> snd f = Some fileId) nodes))"

definition getFileFromMetaobject :: "world \<Rightarrow> string \<Rightarrow> file_info option \<times> call list" where
  "getFileFromMetaobject w fileId =
     (let FILE_METAOBJECT_TYPE = ''uploaded_file'';
          handleQuery = MetaobjectByHandleQuery fileId FILE_METAOBJECT_TYPE;
          byHandle = recordByHandle (shopGql w handleQuery);
          listQuery = MetaobjectsQuery FILE_METAOBJECT_TYPE 100;
          fileRecord = (if byHandle = None then recordFromList (shopGql w listQuery) fileId else byHandle);
          calls = (if byHandle = None then [CallShopGql handleQuery, CallShopGql listQuery]
                   else [CallShopGql handleQuery])
      in (case fileRecord of None \<Rightarrow> None | Some r \<Rightarrow> fileInfoOfRecord r, calls))"

text \<open>An element of \<open>files\<close>: type \<open>shopify_url\<close> with its URL, or type \<open>metaobject\<close> with its file id.\<close>

datatype file_entry =
    Shopify_url (fileName: string) (entry_url: string)
  | Metaobject_ref (fileName: string) (entry_fileId: string)

definition getAttr :: "attribute list \<Rightarrow> string \<Rightarrow> string option" where
  "getAttr attributes k =
     (case find (\<lambda>a. fst a = k) attributes of
        Some attr \<Rightarrow> snd attr
      | None \<Rightarrow> None)"

text \<open>The body of the extraction loop: what one line item adds to \<open>files\<close>, if anything.\<close>

definition extractFile :: "line_item \<Rightarrow> file_entry option" where
  "extractFile lineItem =
     (let attributes = (case customAttributes lineItem of None \<Rightarrow> [] | Some as \<Rightarrow> as);
          fileName = the (orS (orS (getAttr attributes lit_file) (Some (title lineItem))) (Some lit_unknown_file));
          shopifyFileUrl = getAttr attributes lit_shopify_file_url;
          shopifyFileId = getAttr attributes lit_shopify_file_id;
          fileId = getAttr attributes lit_file_id
      in if truthyS shopifyFileUrl \<and> shopifyFileUrl \<noteq> Some lit_not_uploaded
            \<and> startsWith (the shopifyFileUrl) ''http''
         then Some (Shopify_url fileName (the shopifyFileUrl))
         else if truthyS fileId then Some (Metaobject_ref fileName (the fileId))
         else None)"

definition extractFiles :: "draft_order \<Rightarrow> file_entry list" where
  "extractFiles draftOrder = List.map_filter extractFile (lineItems draftOrder)"

text \<open>
  JSZip's \<open>file(name, data)\<close> adds the entry or replaces the entry of that name: the
  archive is keyed by name. (The folder entries JSZip adds for a name with a slash are
  not part of this model.)
\<close>

fun zip_file :: "string \<Rightarrow> zip_content \<Rightarrow> archive \<Rightarrow> archive" where
  "zip_file n d [] = [(n, d)]"
| "zip_file n d (e # es) = (if fst e = n then (n, d) # es else e # zip_file n d es)"

text \<open>The \<open>try\<close> block of the packing loop up to \<open>fileBuffer\<close>: the buffer, or what was thrown.\<close>

definition fetchFileBuffer :: "world \<Rightarrow> file_entry \<Rightarrow> bytes outcome \<times> call list" where
  "fetchFileBuffer w file =
     (case file of
        Shopify_url fname u \<Rightarrow> downloadFileFromShopify w u
      | Metaobject_ref fname fid \<Rightarrow>
          (case getFileFromMetaobject w fid of
             (None, calls) \<Rightarrow> (Throws lit_metaobject_failed, calls)
           | (Some (UrlInfo u n), calls) \<Rightarrow>
               (case downloadFileFromShopify w u of (r, calls') \<Rightarrow> (r, calls @ calls'))
           | (Some (Base64Info d n), calls) \<Rightarrow>
               (let base64Data = (if CHR '','' \<in> set d then split CHR '','' d ! 1 else d)
                in (Returns (Buffer_from_base64 w base64Data), calls))))"

record packing =
  archive_of :: archive
  successCount :: nat
  failCount :: nat
  calls_of :: "call list"

text \<open>One round of the packing loop: a buffer is always truthy, so a fetched file is always added.\<close>

definition packFile :: "world \<Rightarrow> packing \<Rightarrow> file_entry \<Rightarrow> packing" where
  "packFile w st file =
     (case fetchFileBuffer w file of
        (Returns fileBuffer, calls) \<Rightarrow>
          \<lparr>archive_of = zip_file (fileName file) (Binary fileBuffer) (archive_of st),
           successCount = successCount st + 1,
           failCount = failCount st,
           calls_of = calls_of st @ calls\<rparr>
      | (Throws msg, calls) \<Rightarrow>
          \<lparr>archive_of = zip_file (lit_error_prefix @ fileName file @ ''.txt'')
                          (Text (lit_file @ lit_download_failed @ '': '' @ msg)) (archive_of st),
           successCount = successCount st,
           failCount = failCount st + 1,
           calls_of = calls_of st @ calls\<rparr>)"

definition packFiles :: "world \<Rightarrow> file_entry list \<Rightarrow> packing" where
  "packFiles w files =
     foldl (packFile w) \<lparr>archive_of = [], successCount = 0, failCount = 0, calls_of = []\<rparr> files"

definition json :: "nat \<Rightarrow> (string \<times> string) list \<Rightarrow> response \<Rightarrow> response" where
  "json code kvs res = res\<lparr>status := code, body := JsonBody kvs\<rparr>"

definition zipFileName :: "world \<Rightarrow> draft_order \<Rightarrow> string" where
  "zipFileName w draftOrder =
     the (orS (name draftOrder) (Some ''order'')) @ ''_files_'' @ digits (Date_now w) @ ''.zip''"

text \<open>Steps 2 to 5 of the handler: from the order found to the response.\<close>

definition sendOrderFiles :: "world \<Rightarrow> response \<Rightarrow> draft_order \<Rightarrow> response \<times> call list" where
  "sendOrderFiles w res draftOrder =
     (let files = extractFiles draftOrder in
      if length files = 0
      then (json 404 [(''error'', lit_no_files_found), (''message'', lit_no_valid_links)] res, [])
      else if \<not> JSZip w
      then (json 500 [(''error'', lit_zip_unavailable), (''message'', lit_install_jszip)] res, [])
      else
        (let st = packFiles w files in
         if successCount st = 0
         then (json 500 [(''error'', lit_all_downloads_failed),
                         (''details'', lit_success @ '': '' @ digits (successCount st) @ '', ''
                                       @ lit_failure @ '': '' @ digits (failCount st))] res,
               calls_of st)
         else
           (let zipBuffer = generateAsync w (archive_of st);
                res1 = setHeader ''Content-Type'' ''application/zip'' res;
                res2 = setHeader ''Content-Disposition''
                         (''attachment; filename='' @ [CHR 0x22]
                          @ encodeURIComponent (zipFileName w draftOrder) @ [CHR 0x22]) res1;
                res3 = setHeader ''Content-Length'' (digits (length zipBuffer)) res2
            in (res3\<lparr>status := 200, body := ZipBuffer (archive_of st)\<rparr>, calls_of st))))"

definition handler :: "world \<Rightarrow> request \<Rightarrow> response \<times> call list" where
  "handler w req =
     (let res = setCorsHeaders w req ''GET,POST,OPTIONS'' emptyResponse in
      if req_method req = ''OPTIONS'' then (res\<lparr>status := 204\<rparr>, [])
      else if req_method req \<noteq> ''GET'' then (json 405 [(''error'', ''Method not allowed'')] res, [])
      else if \<not> truthyS (req_draftOrderId req)
      then (json 400 [(''error'', ''Missing draftOrderId parameter''),
                      (''usage'', ''GET /api/download-order-files?draftOrderId=gid://shopify/DraftOrder/123456789'')] res,
            [])
      else
        (let draftOrderId = the (req_draftOrderId req);
             draftOrderQuery = DraftOrderQuery draftOrderId
         in case shopGql w draftOrderQuery of
              Throws msg \<Rightarrow>
                (json 500 [(''error'', lit_batch_download_failed), (''details'', msg)] res,
                 [CallShopGql draftOrderQuery])
            | Returns draftOrderResult \<Rightarrow>
                (case gql_errors draftOrderResult of
                   Some (e # es) \<Rightarrow>
                     (json 500 [(''error'', lit_query_order_failed), (''details'', e)] res,
                      [CallShopGql draftOrderQuery])
                 | _ \<Rightarrow>
                     (case gql_data draftOrderResult of
                        Some (DraftOrderData (Some draftOrder)) \<Rightarrow>
                          (case sendOrderFiles w res draftOrder of
                             (res', calls) \<Rightarrow> (res', CallShopGql draftOrderQuery # calls))
                      | _ \<Rightarrow>
                          (json 404 [(''error'', lit_order_not_found)] res,
                           [CallShopGql draftOrderQuery])))))"

section \<open>An example shop\<close>

text \<open>
  A concrete world for the closed instances below: four draft orders, two metaobject
  records and a file server that serves three files and answers 404 for the rest.
\<close>

definition order_mixed :: draft_order where
  "order_mixed =
     \<lparr>name = Some ''#D1001'',
      lineItems =
        [\<lparr>title = ''Part A'', customAttributes = Some
            [(lit_file, Some ''a.stl''), (lit_shopify_file_url, Some ''https://cdn.shopify.com/a.stl'')]\<rparr>,
         \<lparr>title = ''Part B'', customAttributes = Some
            [(lit_file, Some ''b.stl''), (lit_shopify_file_url, Some ''https://cdn.shopify.com/b.stl'')]\<rparr>,
         \<lparr>title = ''Part C'', customAttributes = Some
            [(lit_file, Some ''c.stl''), (lit_shopify_file_url, Some lit_not_uploaded),
             (lit_file_id, Some ''file_c'')]\<rparr>,
         \<lparr>title = ''Manual quote'', customAttributes = Some []\<rparr>]\<rparr>"

definition order_same_names :: draft_order where
  "order_same_names =
     \<lparr>name = Some ''#D1002'',
      lineItems =
        [\<lparr>title = ''Bracket'', customAttributes = Some
            [(lit_file, Some ''part.stl''), (lit_shopify_file_url, Some ''https://cdn.shopify.com/a.stl'')]\<rparr>,
         \<lparr>title = ''Housing'', customAttributes = Some
            [(lit_file, Some ''part.stl''), (lit_shopify_file_url, Some ''https://cdn.shopify.com/a2.stl'')]\<rparr>,
         \<lparr>title = ''Part B'', customAttributes = Some
            [(lit_file, Some ''b.stl''), (lit_shopify_file_url, Some ''https://cdn.shopify.com/b.stl'')]\<rparr>]\<rparr>"

definition order_no_files :: draft_order where
  "order_no_files =
     \<lparr>name = Some ''#D1003'',
      lineItems =
        [\<lparr>title = ''Manual quote'', customAttributes = None\<rparr>,
         \<lparr>title = ''Pending upload'', customAttributes = Some
            [(lit_shopify_file_url, Some lit_not_uploaded), (lit_file_id, Some [])]\<rparr>]\<rparr>"

definition order_all_fail :: draft_order where
  "order_all_fail =
     \<lparr>name = None,
      lineItems =
        [\<lparr>title = ''Part B'', customAttributes = Some
            [(lit_file, Some ''b.stl''), (lit_shopify_file_url, Some ''https://cdn.shopify.com/b.stl'')]\<rparr>,
         \<lparr>title = ''Part E'', customAttributes = Some [(lit_file_id, Some ''file_missing'')]\<rparr>]\<rparr>"

definition record_c :: metaobject where
  "record_c = \<lparr>mo_fields = [(''file_id'', Some ''file_c''), (''file_name'', Some ''c.stl''),
                            (''file_data'', Some ''data:model/stl;base64,c29saWQgYw=='')]\<rparr>"

definition record_d :: metaobject where
  "record_d = \<lparr>mo_fields = [(''file_id'', Some ''file_d''),
                            (''file_url'', Some ''https://cdn.shopify.com/a.stl'')]\<rparr>"

definition example_graphql :: "string \<Rightarrow> string \<Rightarrow> gql_query \<Rightarrow> gql_json outcome" where
  "example_graphql domain token q =
     (case q of
        DraftOrderQuery i \<Rightarrow>
          Returns \<lparr>gql_errors = None, gql_data = Some (DraftOrderData
            (if i = ''gid://shopify/DraftOrder/1'' then Some order_mixed
             else if i = ''gid://shopify/DraftOrder/2'' then Some order_same_names
             else if i = ''gid://shopify/DraftOrder/3'' then Some order_no_files
             else if i = ''gid://shopify/DraftOrder/4'' then Some order_all_fail
             else None))\<rparr>
      | MetaobjectByHandleQuery h t \<Rightarrow>
          Returns \<lparr>gql_errors = None, gql_data = Some (MetaobjectByHandleData
            (if h = ''file_c'' \<and> t = ''uploaded_file'' then Some record_c else None))\<rparr>
      | MetaobjectsQuery t n \<Rightarrow>
          Returns \<lparr>gql_errors = None,
                   gql_data = Some (MetaobjectsData (take n [record_c, record_d]))\<rparr>)"

definition example_fetch :: "string \<Rightarrow> fetch_result" where
  "example_fetch u =
     (if u = ''https://cdn.shopify.com/a.stl'' then Response True 200 ''OK'' (Returns ''solid a'')
      else if u = ''https://cdn.shopify.com/a2.stl'' then Response True 200 ''OK'' (Returns ''solid a2'')
      else Response False 404 ''Not Found'' (Returns []))"

definition example_world :: world where
  "example_world =
     \<lparr>SHOPIFY_STORE_DOMAIN = Some ''sain-pdc-test.myshopify.com'',
      SHOP = None,
      SHOPIFY_ACCESS_TOKEN = Some ''token'',
      ADMIN_TOKEN = None,
      graphql = example_graphql,
      fetch = example_fetch,
      Date_now = 1700000000000,
      URL_origin = (\<lambda>r. if r = ''http://localhost:3000/pages/upload'' then Some ''http://localhost:3000'' else None),
      Buffer_from_base64 = (\<lambda>s. if s = ''c29saWQgYw=='' then ''solid c'' else []),
      JSZip = True,
      generateAsync = (\<lambda>z. concat (map (\<lambda>e. case snd e of Binary b \<Rightarrow> b | Text t \<Rightarrow> t) z))\<rparr>"

definition example_request :: "string \<Rightarrow> string option \<Rightarrow> request" where
  "example_request m i =
     \<lparr>req_method = m, req_origin = Some ''http://localhost:3000'', req_referer = None,
      req_draftOrderId = i\<rparr>"

section \<open>Conditions on a run of the handler\<close>

text \<open>
  The order lookup of a GET request with a \<open>draftOrderId\<close> succeeds with this order:
  \<open>shopGql\<close> returns, its answer has no error, and its data holds the order.
\<close>

definition orderFound :: "world \<Rightarrow> request \<Rightarrow> draft_order \<Rightarrow> bool" where
  "orderFound w req draftOrder =
     (req_method req = ''GET'' \<and> truthyS (req_draftOrderId req) \<and>
      (case shopGql w (DraftOrderQuery (the (req_draftOrderId req))) of
         Throws msg \<Rightarrow> False
       | Returns r \<Rightarrow>
           (case gql_errors r of
              Some (e # es) \<Rightarrow> False
            | _ \<Rightarrow> gql_data r = Some (DraftOrderData (Some draftOrder)))))"

text \<open>Whether the materialization of one entry of \<open>files\<close> gives a buffer or throws.\<close>

definition succeeds :: "world \<Rightarrow> file_entry \<Rightarrow> bool" where
  "succeeds w file = (case fst (fetchFileBuffer w file) of Returns b \<Rightarrow> True | Throws msg \<Rightarrow> False)"

text \<open>The name under which the packing loop files an entry, and what it stores there.\<close>

definition archiveName :: "world \<Rightarrow> file_entry \<Rightarrow> string" where
  "archiveName w file =
     (if succeeds w file then fileName file else lit_error_prefix @ fileName file @ ''.txt'')"

definition archiveContent :: "world \<Rightarrow> file_entry \<Rightarrow> zip_content" where
  "archiveContent w file =
     (case fst (fetchFileBuffer w file) of
        Returns b \<Rightarrow> Binary b
      | Throws msg \<Rightarrow> Text (lit_file @ lit_download_failed @ '': '' @ msg))"

section \<open>The classification of a line item, as the specification words it\<close>

datatype sourceKind = DirectUrl | IndirectReference | Missing

text \<open>The kind of what the extraction loop does with a line item: the entry pushed, or the skip.\<close>

definition sourceKind_of :: "file_entry option \<Rightarrow> sourceKind" where
  "sourceKind_of e =
     (case e of
        Some (Shopify_url n u) \<Rightarrow> DirectUrl
      | Some (Metaobject_ref n i) \<Rightarrow> IndirectReference
      | None \<Rightarrow> Missing)"

definition attributesOf :: "line_item \<Rightarrow> attribute list" where
  "attributesOf lineItem = (case customAttributes lineItem of None \<Rightarrow> [] | Some as \<Rightarrow> as)"

text \<open>
  The priority order in the specification's words, where an attribute is present when
  the line item has a value for its key.
\<close>

definition classify_spec :: "line_item \<Rightarrow> sourceKind" where
  "classify_spec lineItem =
     (let directUrl = getAttr (attributesOf lineItem) lit_shopify_file_url;
          indirectId = getAttr (attributesOf lineItem) lit_file_id
      in if directUrl \<noteq> None \<and> directUrl \<noteq> Some lit_not_uploaded
            \<and> startsWith (the directUrl) ''http''
         then DirectUrl
         else if indirectId \<noteq> None then IndirectReference
         else Missing)"

text \<open>The same order with the second rule asking for a value that is not empty.\<close>

definition classify_amended :: "line_item \<Rightarrow> sourceKind" where
  "classify_amended lineItem =
     (let directUrl = getAttr (attributesOf lineItem) lit_shopify_file_url;
          indirectId = getAttr (attributesOf lineItem) lit_file_id
      in if directUrl \<noteq> None \<and> directUrl \<noteq> Some lit_not_uploaded
            \<and> startsWith (the directUrl) ''http''
         then DirectUrl
         else if indirectId \<noteq> None \<and> indirectId \<noteq> Some [] then IndirectReference
         else Missing)"

definition item_empty_id :: line_item where
  "item_empty_id = \<lparr>title = ''Pending upload'', customAttributes = Some [(lit_file_id, Some [])]\<rparr>"

definition request_with_referer :: request where
  "request_with_referer =
     \<lparr>req_method = ''GET'', req_origin = None,
      req_referer = Some ''http://localhost:3000/pages/upload'', req_draftOrderId = None\<rparr>"

section \<open>The resolution of an indirect reference, as the specification words it\<close>

text \<open>
  What the exact-handle query yields for an identifier: a record, or nothing when the
  answer has no record, is an error answer, or the query throws.
\<close>

definition exactHandleRecord :: "world \<Rightarrow> string \<Rightarrow> metaobject option" where
  "exactHandleRecord w ident =
     (case shopGql w (MetaobjectByHandleQuery ident ''uploaded_file'') of
        Returns j \<Rightarrow> (case gql_data j of Some (MetaobjectByHandleData (Some r)) \<Rightarrow> Some r | _ \<Rightarrow> None)
      | Throws msg \<Rightarrow> None)"

text \<open>The records of the bounded list query: the first 100 of the type.\<close>

definition listedRecords :: "world \<Rightarrow> metaobject list" where
  "listedRecords w =
     (case shopGql w (MetaobjectsQuery ''uploaded_file'' 100) of
        Returns j \<Rightarrow> (case gql_data j of Some (MetaobjectsData ns) \<Rightarrow> ns | _ \<Rightarrow> [])
      | Throws msg \<Rightarrow> [])"

text \<open>The value of a record's field, empty when the field is missing or null.\<close>

definition fieldValue :: "metaobject \<Rightarrow> string \<Rightarrow> string" where
  "fieldValue r k = (case map_of (mo_fields r) k of Some (Some v) \<Rightarrow> v | _ \<Rightarrow> [])"

text \<open>The exact-handle query first; the list query, filtered by the identifier field, only without a record.\<close>

definition resolve_spec :: "world \<Rightarrow> string \<Rightarrow> metaobject option \<times> call list" where
  "resolve_spec w ident =
     (case exactHandleRecord w ident of
        Some r \<Rightarrow> (Some r, [CallShopGql (MetaobjectByHandleQuery ident ''uploaded_file'')])
      | None \<Rightarrow>
          (case filter (\<lambda>r. map_of (mo_fields r) ''file_id'' = Some (Some ident)) (listedRecords w) of
             [] \<Rightarrow> None
           | r # rs \<Rightarrow> Some r,
           [CallShopGql (MetaobjectByHandleQuery ident ''uploaded_file''),
            CallShopGql (MetaobjectsQuery ''uploaded_file'' 100)]))"

text \<open>The base64 text of an inline payload: what stands between the first comma and the next, if there is a comma.\<close>

definition payload_spec :: "string \<Rightarrow> string" where
  "payload_spec d =
     (if CHR '','' \<in> set d
      then takeWhile (\<lambda>c. c \<noteq> CHR '','') (tl (dropWhile (\<lambda>c. c \<noteq> CHR '','') d))
      else d)"

text \<open>
  The materialization of an indirect reference: the secondary URL first, fetched as a
  direct URL is; then the inline payload, decoded; a failure with neither, or with no
  record.
\<close>

definition materialize_spec :: "world \<Rightarrow> string \<Rightarrow> bytes outcome \<times> call list" where
  "materialize_spec w ident =
     (case resolve_spec w ident of
        (None, calls) \<Rightarrow> (Throws lit_metaobject_failed, calls)
      | (Some r, calls) \<Rightarrow>
          if startsWith (fieldValue r ''file_url'') ''http://''
             \<or> startsWith (fieldValue r ''file_url'') ''https://''
          then (fst (downloadFileFromShopify w (fieldValue r ''file_url'')),
                calls @ [CallFetch (fieldValue r ''file_url'')])
          else if fieldValue r ''file_data'' \<noteq> []
          then (Returns (Buffer_from_base64 w (payload_spec (fieldValue r ''file_data''))), calls)
          else (Throws lit_metaobject_failed, calls))"

section \<open>Properties of the string functions\<close>

















section \<open>Headers\<close>

lemma headers_setHeader_names:
  "map fst (headers (setHeader k v res)) =
     filter (\<lambda>n. toLowerCase n \<noteq> toLowerCase k) (map fst (headers res)) @ [k]"
  by (simp add: setHeader_def filter_map comp_def)

lemma map_of_lowered_filter_same:
  "map_of (map (\<lambda>h. (toLowerCase (fst h), snd h))
     (filter (\<lambda>h. toLowerCase (fst h) \<noteq> toLowerCase k) xs)) (toLowerCase k) = None"
  by (induction xs) auto

lemma map_of_lowered_filter_other:
  "toLowerCase k' \<noteq> toLowerCase k \<Longrightarrow>
   map_of (map (\<lambda>h. (toLowerCase (fst h), snd h))
     (filter (\<lambda>h. toLowerCase (fst h) \<noteq> toLowerCase k) xs)) (toLowerCase k')
   = map_of (map (\<lambda>h. (toLowerCase (fst h), snd h)) xs) (toLowerCase k')"
  by (induction xs) auto

lemma getHeader_setHeader_same: "getHeader (setHeader k v res) k = Some v"
  by (simp add: getHeader_def setHeader_def map_add_def map_of_lowered_filter_same)

lemma getHeader_setHeader_other:
  "toLowerCase k' \<noteq> toLowerCase k \<Longrightarrow> getHeader (setHeader k v res) k' = getHeader res k'"
  by (auto simp: getHeader_def setHeader_def map_add_def map_of_lowered_filter_other
      split: option.splits)

lemma setHeader_status [simp]: "status (setHeader k v res) = status res"
  by (simp add: setHeader_def)

lemma setHeader_body [simp]: "body (setHeader k v res) = body res"
  by (simp add: setHeader_def)

lemma getHeader_status_update [simp]: "getHeader (res\<lparr>status := s\<rparr>) k = getHeader res k"
  by (simp add: getHeader_def)

lemma getHeader_body_update [simp]: "getHeader (res\<lparr>body := b\<rparr>) k = getHeader res k"
  by (simp add: getHeader_def)

lemma setCorsHeaders_status [simp]: "status (setCorsHeaders w req m res) = status res"
  by (simp add: setCorsHeaders_def Let_def)

lemma setCorsHeaders_body [simp]: "body (setCorsHeaders w req m res) = body res"
  by (simp add: setCorsHeaders_def Let_def)

lemma setCorsHeaders_names:
  "map fst (headers (setCorsHeaders w req m emptyResponse)) =
     [''Access-Control-Allow-Origin'', ''Vary'', ''Access-Control-Allow-Methods'',
      ''Access-Control-Allow-Headers'', ''Access-Control-Allow-Credentials'',
      ''Access-Control-Max-Age'']"
  by (simp add: setCorsHeaders_def Let_def headers_setHeader_names emptyResponse_def
      toLowerCase_def lowerChar_def)

section \<open>The method gate\<close>

text \<open>
  C8: a request whose method is neither GET nor OPTIONS is answered 405 with the JSON body
  holding the one member error = Method not allowed, and no external call has been made;
  an OPTIONS request is answered 204 with no body, no external call, and exactly the six
  headers that \<open>setCorsHeaders\<close> sets.
\<close>

theorem handler_method_gate:
  "(req_method req \<noteq> ''GET'' \<and> req_method req \<noteq> ''OPTIONS'' \<longrightarrow>
      status (fst (handler w req)) = 405
      \<and> body (fst (handler w req)) = JsonBody [(''error'', ''Method not allowed'')]
      \<and> snd (handler w req) = [])
   \<and> (req_method req = ''OPTIONS'' \<longrightarrow>
      status (fst (handler w req)) = 204
      \<and> body (fst (handler w req)) = NoBody
      \<and> snd (handler w req) = []
      \<and> headers (fst (handler w req)) = headers (setCorsHeaders w req ''GET,POST,OPTIONS'' emptyResponse)
      \<and> map fst (headers (fst (handler w req))) =
          [''Access-Control-Allow-Origin'', ''Vary'', ''Access-Control-Allow-Methods'',
           ''Access-Control-Allow-Headers'', ''Access-Control-Allow-Credentials'',
           ''Access-Control-Max-Age''])"
proof (intro conjI impI)
  assume m: "req_method req \<noteq> ''GET'' \<and> req_method req \<noteq> ''OPTIONS''"
  then have h: "handler w req =
      (json 405 [(''error'', ''Method not allowed'')] (setCorsHeaders w req ''GET,POST,OPTIONS'' emptyResponse), [])"
    by (simp add: handler_def Let_def)
  show "status (fst (handler w req)) = 405" by (simp add: h json_def)
  show "body (fst (handler w req)) = JsonBody [(''error'', ''Method not allowed'')]"
    by (simp add: h json_def)
  show "snd (handler w req) = []" by (simp add: h)
next
  assume m: "req_method req = ''OPTIONS''"
  then have h: "handler w req =
      ((setCorsHeaders w req ''GET,POST,OPTIONS'' emptyResponse)\<lparr>status := 204\<rparr>, [])"
    by (simp add: handler_def Let_def)
  show "status (fst (handler w req)) = 204" by (simp add: h)
  show "body (fst (handler w req)) = NoBody" by (simp add: h emptyResponse_def)
  show "snd (handler w req) = []" by (simp add: h)
  show "headers (fst (handler w req)) = headers (setCorsHeaders w req ''GET,POST,OPTIONS'' emptyResponse)"
    by (simp add: h)
  then show "map fst (headers (fst (handler w req))) =
          [''Access-Control-Allow-Origin'', ''Vary'', ''Access-Control-Allow-Methods'',
           ''Access-Control-Allow-Headers'', ''Access-Control-Allow-Credentials'',
           ''Access-Control-Max-Age'']"
    by (simp only: setCorsHeaders_names)
qed

theorem handler_method_gate_witness:
  "status (fst (handler example_world (example_request ''DELETE'' (Some ''gid://shopify/DraftOrder/1'')))) = 405
   \<and> body (fst (handler example_world (example_request ''DELETE'' (Some ''gid://shopify/DraftOrder/1''))))
       = JsonBody [(''error'', ''Method not allowed'')]
   \<and> snd (handler example_world (example_request ''DELETE'' (Some ''gid://shopify/DraftOrder/1''))) = []
   \<and> status (fst (handler example_world (example_request ''OPTIONS'' None))) = 204
   \<and> body (fst (handler example_world (example_request ''OPTIONS'' None))) = NoBody
   \<and> snd (handler example_world (example_request ''OPTIONS'' None)) = []"
  using handler_method_gate [of "example_request ''DELETE'' (Some ''gid://shopify/DraftOrder/1'')" example_world]
        handler_method_gate [of "example_request ''OPTIONS'' None" example_world]
  by (simp add: example_request_def)

section \<open>The handler after the order lookup\<close>

lemma handler_orderFound:
  assumes "orderFound w req draftOrder"
  shows "handler w req =
     (fst (sendOrderFiles w (setCorsHeaders w req ''GET,POST,OPTIONS'' emptyResponse) draftOrder),
      CallShopGql (DraftOrderQuery (the (req_draftOrderId req)))
        # snd (sendOrderFiles w (setCorsHeaders w req ''GET,POST,OPTIONS'' emptyResponse) draftOrder))"
  using assms
  by (auto simp: orderFound_def handler_def Let_def split_beta
      split: outcome.splits option.splits list.splits gql_data.splits)

section \<open>The packing loop\<close>

lemma packFile_counts:
  "successCount (packFile w st file) = successCount st + (if succeeds w file then 1 else 0)"
  "failCount (packFile w st file) = failCount st + (if succeeds w file then 0 else 1)"
  by (auto simp: packFile_def succeeds_def split: prod.splits outcome.splits)

lemma packFile_archive:
  "archive_of (packFile w st file) = zip_file (archiveName w file) (archiveContent w file) (archive_of st)"
  by (auto simp: packFile_def succeeds_def archiveName_def archiveContent_def
      split: prod.splits outcome.splits)

lemma packFile_calls:
  "calls_of (packFile w st file) = calls_of st @ snd (fetchFileBuffer w file)"
  by (auto simp: packFile_def split: prod.splits outcome.splits)

lemma foldl_packFile_counts:
  "successCount (foldl (packFile w) st files) = successCount st + length (filter (succeeds w) files)"
  "failCount (foldl (packFile w) st files) = failCount st + length (filter (\<lambda>f. \<not> succeeds w f) files)"
  by (induction files arbitrary: st) (simp_all add: packFile_counts)

lemma packFiles_counts:
  "successCount (packFiles w files) = length (filter (succeeds w) files)"
  "failCount (packFiles w files) = length (filter (\<lambda>f. \<not> succeeds w f) files)"
  by (simp_all add: packFiles_def foldl_packFile_counts)

lemma packFiles_total: "successCount (packFiles w files) + failCount (packFiles w files) = length files"
  by (simp add: packFiles_counts sum_length_filter_compl)

lemma foldl_packFile_calls:
  "calls_of (foldl (packFile w) st files) = calls_of st @ concat (map (\<lambda>f. snd (fetchFileBuffer w f)) files)"
  by (induction files arbitrary: st) (simp_all add: packFile_calls)

lemma packFiles_calls:
  "calls_of (packFiles w files) = concat (map (\<lambda>f. snd (fetchFileBuffer w f)) files)"
  by (simp add: packFiles_def foldl_packFile_calls)

section \<open>The outcomes of the handler\<close>

lemma sendOrderFiles_no_files:
  assumes "extractFiles draftOrder = []"
  shows "sendOrderFiles w res draftOrder =
     (json 404 [(''error'', lit_no_files_found), (''message'', lit_no_valid_links)] res, [])"
  using assms by (simp add: sendOrderFiles_def)

lemma sendOrderFiles_all_failed:
  assumes "extractFiles draftOrder \<noteq> []" "JSZip w"
    and "successCount (packFiles w (extractFiles draftOrder)) = 0"
  shows "sendOrderFiles w res draftOrder =
     (json 500 [(''error'', lit_all_downloads_failed),
                (''details'', lit_success @ '': '' @ digits 0 @ '', '' @ lit_failure @ '': ''
                              @ digits (failCount (packFiles w (extractFiles draftOrder))))] res,
      calls_of (packFiles w (extractFiles draftOrder)))"
  using assms by (simp add: sendOrderFiles_def Let_def)

lemma sendOrderFiles_packed:
  assumes "extractFiles draftOrder \<noteq> []" "JSZip w"
    and "successCount (packFiles w (extractFiles draftOrder)) \<noteq> 0"
  shows "sendOrderFiles w res draftOrder =
     ((setHeader ''Content-Length''
         (digits (length (generateAsync w (archive_of (packFiles w (extractFiles draftOrder))))))
         (setHeader ''Content-Disposition''
            (''attachment; filename='' @ [CHR 0x22]
             @ encodeURIComponent (zipFileName w draftOrder) @ [CHR 0x22])
            (setHeader ''Content-Type'' ''application/zip'' res)))
        \<lparr>status := 200, body := ZipBuffer (archive_of (packFiles w (extractFiles draftOrder)))\<rparr>,
      calls_of (packFiles w (extractFiles draftOrder)))"
  using assms by (simp add: sendOrderFiles_def Let_def)

lemma sendOrderFiles_status_200:
  assumes "status (fst (sendOrderFiles w res draftOrder)) = 200"
  shows "extractFiles draftOrder \<noteq> [] \<and> JSZip w
         \<and> successCount (packFiles w (extractFiles draftOrder)) \<noteq> 0"
  using assms by (auto simp: sendOrderFiles_def Let_def json_def split: if_splits)

lemma lit_no_files_found_neq_order_not_found: "lit_no_files_found \<noteq> lit_order_not_found"
  by (simp add: lit_no_files_found_def lit_order_not_found_def)

text \<open>
  C5: when the order is found and no line item gives a processable file entry, the answer
  is 404 with the no-files-found error, which is not the order-not-found error; the only
  external call made is the order lookup, and the body is JSON, not an archive.
\<close>

theorem handler_no_files_found:
  assumes "orderFound w req draftOrder" and "extractFiles draftOrder = []"
  shows "status (fst (handler w req)) = 404
     \<and> body (fst (handler w req)) = JsonBody [(''error'', lit_no_files_found), (''message'', lit_no_valid_links)]
     \<and> lit_no_files_found \<noteq> lit_order_not_found
     \<and> snd (handler w req) = [CallShopGql (DraftOrderQuery (the (req_draftOrderId req)))]"
  by (simp add: handler_orderFound[OF assms(1)] sendOrderFiles_no_files[OF assms(2)] json_def
      lit_no_files_found_neq_order_not_found)

lemma orderFound_example_3:
  "orderFound example_world (example_request ''GET'' (Some ''gid://shopify/DraftOrder/3'')) order_no_files"
  by code_simp

lemma extractFiles_order_no_files: "extractFiles order_no_files = []"
  by code_simp

theorem handler_no_files_found_witness:
  "status (fst (handler example_world (example_request ''GET'' (Some ''gid://shopify/DraftOrder/3'')))) = 404
   \<and> body (fst (handler example_world (example_request ''GET'' (Some ''gid://shopify/DraftOrder/3''))))
       = JsonBody [(''error'', lit_no_files_found), (''message'', lit_no_valid_links)]
   \<and> snd (handler example_world (example_request ''GET'' (Some ''gid://shopify/DraftOrder/3'')))
       = [CallShopGql (DraftOrderQuery ''gid://shopify/DraftOrder/3'')]"
  using handler_no_files_found [OF orderFound_example_3 extractFiles_order_no_files]
  by (simp add: example_request_def)

text \<open>
  C4: when the order is found, it has at least one processable file entry, the archive
  library is loaded and every entry's materialization throws, the answer is 500 with the
  all-downloads-failed error and the counts in the details; the body is JSON, so no
  archive is sent.
\<close>

theorem handler_all_downloads_failed:
  assumes "orderFound w req draftOrder" and "extractFiles draftOrder \<noteq> []" and "JSZip w"
    and "\<forall>file \<in> set (extractFiles draftOrder). \<not> succeeds w file"
  shows "status (fst (handler w req)) = 500
     \<and> body (fst (handler w req)) =
         JsonBody [(''error'', lit_all_downloads_failed),
                   (''details'', lit_success @ '': 0, '' @ lit_failure @ '': ''
                                 @ digits (length (extractFiles draftOrder)))]"
proof -
  have none: "filter (succeeds w) (extractFiles draftOrder) = []"
    using assms(4) by (simp add: filter_empty_conv)
  then have s0: "successCount (packFiles w (extractFiles draftOrder)) = 0"
    by (simp add: packFiles_counts)
  with packFiles_total[of w "extractFiles draftOrder"]
  have f: "failCount (packFiles w (extractFiles draftOrder)) = length (extractFiles draftOrder)"
    by simp
  have d0: "digits 0 = ''0''" by (simp add: digits.simps)
  show ?thesis
    by (simp add: handler_orderFound[OF assms(1)] sendOrderFiles_all_failed[OF assms(2,3) s0]
        json_def f d0)
qed

lemma orderFound_example_4:
  "orderFound example_world (example_request ''GET'' (Some ''gid://shopify/DraftOrder/4'')) order_all_fail"
  by code_simp

lemma order_all_fail_facts:
  "extractFiles order_all_fail \<noteq> []"
  "JSZip example_world"
  "\<forall>file \<in> set (extractFiles order_all_fail). \<not> succeeds example_world file"
  by code_simp+

theorem handler_all_downloads_failed_witness:
  "status (fst (handler example_world (example_request ''GET'' (Some ''gid://shopify/DraftOrder/4'')))) = 500
   \<and> body (fst (handler example_world (example_request ''GET'' (Some ''gid://shopify/DraftOrder/4'')))) =
         JsonBody [(''error'', lit_all_downloads_failed),
                   (''details'', lit_success @ '': 0, '' @ lit_failure @ '': 2'')]"
proof -
  have len: "length (extractFiles order_all_fail) = 2" by code_simp
  have d2: "digits 2 = ''2''" by (simp add: digits.simps)
  show ?thesis
    using handler_all_downloads_failed [OF orderFound_example_4 order_all_fail_facts]
    by (simp add: len d2)
qed

section \<open>The name of the download\<close>

lemma encodeURIComponent_append:
  "encodeURIComponent (a @ b) = encodeURIComponent a @ encodeURIComponent b"
  by (simp add: encodeURIComponent_def)

lemma encodeURIComponent_unreserved:
  "\<forall>c \<in> set s. uriUnreserved c \<Longrightarrow> encodeURIComponent s = s"
  by (induction s) (simp_all add: encodeURIComponent_def percentEncode_def)

lemma decimal_digit_unreserved: "k < 10 \<Longrightarrow> uriUnreserved (''0123456789'' ! k)"
proof -
  assume "k < 10"
  then have "''0123456789'' ! k \<in> set ''0123456789''" by (intro nth_mem) simp
  then show ?thesis unfolding uriUnreserved_def by auto
qed

lemma hexDigit_unreserved: "k < 16 \<Longrightarrow> uriUnreserved (hexDigit k)"
proof -
  assume "k < 16"
  then have "''0123456789ABCDEF'' ! k \<in> set ''0123456789ABCDEF''" by (intro nth_mem) simp
  then show ?thesis unfolding uriUnreserved_def hexDigit_def by auto
qed

lemma digits_unreserved: "\<forall>c \<in> set (digits n). uriUnreserved c"
proof (induction n rule: digits.induct)
  case (1 n)
  show ?case
  proof (cases "n < 10")
    case True
    then show ?thesis by (subst digits.simps) (simp add: decimal_digit_unreserved)
  next
    case False
    with 1 have "\<forall>c \<in> set (digits (n div 10)). uriUnreserved c" by simp
    with False show ?thesis by (subst digits.simps) (simp add: decimal_digit_unreserved)
  qed
qed

lemma of_char_less_256: "(of_char c :: nat) < 256"
  by (cases c) simp

lemma percentEncode_chars: "\<forall>d \<in> set (percentEncode c). uriUnreserved d \<or> d = CHR ''%''"
proof -
  have "(of_char c :: nat) < 16 * 16" using of_char_less_256[of c] by simp
  then have "(of_char c :: nat) div 16 < 16" by (rule less_mult_imp_div_less)
  moreover have "(of_char c :: nat) mod 16 < 16" by simp
  ultimately show ?thesis by (simp add: percentEncode_def hexDigit_unreserved)
qed

lemma encodeURIComponent_chars:
  "\<forall>d \<in> set (encodeURIComponent s). uriUnreserved d \<or> d = CHR ''%''"
  using percentEncode_chars by (auto simp: encodeURIComponent_def)

lemma encodeURIComponent_zipFileName:
  "encodeURIComponent (zipFileName w draftOrder) =
     encodeURIComponent (the (orS (name draftOrder) (Some ''order''))) @ ''_files_''
       @ digits (Date_now w) @ ''.zip''"
proof -
  have a: "encodeURIComponent ''_files_'' = ''_files_''"
    by (rule encodeURIComponent_unreserved) (simp add: uriUnreserved_def)
  have b: "encodeURIComponent ''.zip'' = ''.zip''"
    by (rule encodeURIComponent_unreserved) (simp add: uriUnreserved_def)
  have c: "encodeURIComponent (digits (Date_now w)) = digits (Date_now w)"
    by (rule encodeURIComponent_unreserved) (rule digits_unreserved)
  show ?thesis unfolding zipFileName_def encodeURIComponent_append a b c by (rule refl)
qed

lemma encodeURIComponent_D1001: "encodeURIComponent ''#D1001'' = ''%23D1001''"
  by (simp add: encodeURIComponent_def percentEncode_def uriUnreserved_def hexDigit_def)

lemma encodeURIComponent_order: "encodeURIComponent ''order'' = ''order''"
  by (rule encodeURIComponent_unreserved) (simp add: uriUnreserved_def)

lemma handler_status_200:
  assumes "orderFound w req draftOrder" and "status (fst (handler w req)) = 200"
  shows "fst (handler w req) =
     (setHeader ''Content-Length''
         (digits (length (generateAsync w (archive_of (packFiles w (extractFiles draftOrder))))))
         (setHeader ''Content-Disposition''
            (''attachment; filename='' @ [CHR 0x22]
             @ encodeURIComponent (zipFileName w draftOrder) @ [CHR 0x22])
            (setHeader ''Content-Type'' ''application/zip''
               (setCorsHeaders w req ''GET,POST,OPTIONS'' emptyResponse))))
        \<lparr>status := 200, body := ZipBuffer (archive_of (packFiles w (extractFiles draftOrder)))\<rparr>"
proof -
  let ?res = "setCorsHeaders w req ''GET,POST,OPTIONS'' emptyResponse"
  have "status (fst (sendOrderFiles w ?res draftOrder)) = 200"
    using assms(2) by (simp add: handler_orderFound[OF assms(1)])
  then have "extractFiles draftOrder \<noteq> [] \<and> JSZip w
         \<and> successCount (packFiles w (extractFiles draftOrder)) \<noteq> 0"
    by (rule sendOrderFiles_status_200)
  then show ?thesis
    by (simp add: handler_orderFound[OF assms(1)] sendOrderFiles_packed)
qed

lemma content_disposition_of_packed:
  "getHeader ((setHeader ''Content-Length'' n
         (setHeader ''Content-Disposition'' v res))\<lparr>status := s, body := b\<rparr>) ''Content-Disposition''
   = Some v"
proof -
  have "toLowerCase ''Content-Disposition'' \<noteq> toLowerCase ''Content-Length''"
    by (simp add: toLowerCase_def lowerChar_def)
  then show ?thesis
    by (simp add: getHeader_setHeader_other getHeader_setHeader_same)
qed

text \<open>
  C7: in every 200 response to a request whose order lookup found the order, the
  Content-Disposition header is \<open>attachment; filename="F"\<close> where F is
  \<open>encodeURIComponent\<close> of the order name (the literal order when the name is absent or
  empty) followed by \<open>_files_\<close>, the decimal request timestamp and \<open>.zip\<close>. F consists of
  unreserved characters and percent signs, it is the encoded name followed by the
  unchanged rest, so it ends in \<open>.zip\<close>; for the order name #D1001 it is
  \<open>%23D1001_files_\<close>, the timestamp and \<open>.zip\<close>.
\<close>

theorem handler_content_disposition:
  assumes "orderFound w req draftOrder" and "status (fst (handler w req)) = 200"
  shows "getHeader (fst (handler w req)) ''Content-Disposition'' =
           Some (''attachment; filename='' @ [CHR 0x22]
                 @ encodeURIComponent (the (orS (name draftOrder) (Some ''order'')) @ ''_files_''
                                       @ digits (Date_now w) @ ''.zip'')
                 @ [CHR 0x22])
     \<and> encodeURIComponent (the (orS (name draftOrder) (Some ''order'')) @ ''_files_''
                            @ digits (Date_now w) @ ''.zip'')
         = encodeURIComponent (the (orS (name draftOrder) (Some ''order''))) @ ''_files_''
           @ digits (Date_now w) @ ''.zip''
     \<and> (\<forall>c \<in> set (encodeURIComponent (the (orS (name draftOrder) (Some ''order'')) @ ''_files_''
                            @ digits (Date_now w) @ ''.zip'')). uriUnreserved c \<or> c = CHR ''%'')
     \<and> (name draftOrder = Some ''#D1001'' \<longrightarrow>
          getHeader (fst (handler w req)) ''Content-Disposition'' =
            Some (''attachment; filename='' @ [CHR 0x22] @ ''%23D1001_files_''
                  @ digits (Date_now w) @ ''.zip'' @ [CHR 0x22]))
     \<and> (\<not> truthyS (name draftOrder) \<longrightarrow>
          getHeader (fst (handler w req)) ''Content-Disposition'' =
            Some (''attachment; filename='' @ [CHR 0x22] @ ''order_files_''
                  @ digits (Date_now w) @ ''.zip'' @ [CHR 0x22]))"
proof -
  have hdr: "getHeader (fst (handler w req)) ''Content-Disposition'' =
      Some (''attachment; filename='' @ [CHR 0x22]
            @ encodeURIComponent (zipFileName w draftOrder) @ [CHR 0x22])"
    by (simp only: handler_status_200[OF assms] content_disposition_of_packed)
  have enc: "encodeURIComponent (zipFileName w draftOrder) =
     encodeURIComponent (the (orS (name draftOrder) (Some ''order''))) @ ''_files_''
       @ digits (Date_now w) @ ''.zip''"
    by (rule encodeURIComponent_zipFileName)
  have zf: "zipFileName w draftOrder = the (orS (name draftOrder) (Some ''order'')) @ ''_files_''
                            @ digits (Date_now w) @ ''.zip''"
    by (simp add: zipFileName_def)
  have d: "name draftOrder = Some ''#D1001'' \<Longrightarrow>
      encodeURIComponent (the (orS (name draftOrder) (Some ''order''))) = ''%23D1001''"
    by (simp add: orS_def truthyS_def encodeURIComponent_D1001)
  have f: "\<not> truthyS (name draftOrder) \<Longrightarrow>
      encodeURIComponent (the (orS (name draftOrder) (Some ''order''))) = ''order''"
    by (simp add: orS_def encodeURIComponent_order)
  show ?thesis
    using hdr enc encodeURIComponent_chars[of "zipFileName w draftOrder"] d f
    unfolding zf by auto
qed

lemma orderFound_example_1:
  "orderFound example_world (example_request ''GET'' (Some ''gid://shopify/DraftOrder/1'')) order_mixed"
  by code_simp

lemma status_example_1:
  "status (fst (handler example_world (example_request ''GET'' (Some ''gid://shopify/DraftOrder/1'')))) = 200"
  by code_simp

theorem handler_content_disposition_witness:
  "getHeader (fst (handler example_world (example_request ''GET'' (Some ''gid://shopify/DraftOrder/1''))))
     ''Content-Disposition''
   = Some (''attachment; filename='' @ [CHR 0x22] @ ''%23D1001_files_1700000000000.zip'' @ [CHR 0x22])"
proof -
  have n: "name order_mixed = Some ''#D1001''" by (simp add: order_mixed_def)
  have t: "digits (Date_now example_world) = ''1700000000000''"
    by (simp add: example_world_def digits.simps)
  from handler_content_disposition [OF orderFound_example_1 status_example_1]
  have "name order_mixed = Some ''#D1001'' \<longrightarrow>
          getHeader (fst (handler example_world (example_request ''GET'' (Some ''gid://shopify/DraftOrder/1''))))
            ''Content-Disposition'' =
            Some (''attachment; filename='' @ [CHR 0x22] @ ''%23D1001_files_''
                  @ digits (Date_now example_world) @ ''.zip'' @ [CHR 0x22])"
    by (elim conjE)
  with n have "getHeader (fst (handler example_world (example_request ''GET'' (Some ''gid://shopify/DraftOrder/1''))))
            ''Content-Disposition'' =
            Some (''attachment; filename='' @ [CHR 0x22] @ ''%23D1001_files_''
                  @ digits (Date_now example_world) @ ''.zip'' @ [CHR 0x22])"
    by (rule_tac mp)
  then show ?thesis unfolding t by simp
qed

section \<open>The classification of line items\<close>

theorem classification_counterexample:
  "sourceKind_of (extractFile item_empty_id) = Missing
   \<and> classify_spec item_empty_id = IndirectReference"
  by code_simp

lemma startsWith_http_nonempty: "startsWith s ''http'' \<Longrightarrow> s \<noteq> []"
  by (auto simp: startsWith_def)

text \<open>
  C2, amended: every line item gets exactly one classification, the value of a function:
  DirectUrl when the direct-URL attribute has a value that is not the placeholder and
  begins with http; otherwise IndirectReference when the file-identifier attribute has a
  value that is not empty; otherwise Missing. A DirectUrl entry carries that URL, an
  IndirectReference entry that identifier, and the entries kept for processing are
  exactly those of the line items not classified Missing, in order.
\<close>

theorem classification_amended:
  "sourceKind_of (extractFile lineItem) = classify_amended lineItem
   \<and> (case extractFile lineItem of
         Some (Shopify_url n u) \<Rightarrow> getAttr (attributesOf lineItem) lit_shopify_file_url = Some u
       | Some (Metaobject_ref n i) \<Rightarrow> getAttr (attributesOf lineItem) lit_file_id = Some i
       | None \<Rightarrow> True)
   \<and> extractFiles draftOrder =
       map (\<lambda>li. the (extractFile li)) (filter (\<lambda>li. classify_amended li \<noteq> Missing) (lineItems draftOrder))"
proof -
  have kind: "\<And>li. sourceKind_of (extractFile li) = classify_amended li"
    by (auto simp: sourceKind_of_def extractFile_def classify_amended_def attributesOf_def Let_def
        truthyS_def dest: startsWith_http_nonempty split: option.splits)
  have carried: "(case extractFile lineItem of
         Some (Shopify_url n u) \<Rightarrow> getAttr (attributesOf lineItem) lit_shopify_file_url = Some u
       | Some (Metaobject_ref n i) \<Rightarrow> getAttr (attributesOf lineItem) lit_file_id = Some i
       | None \<Rightarrow> True)"
    by (auto simp: extractFile_def attributesOf_def Let_def truthyS_def split: option.splits)
  have missing: "\<And>li. (classify_amended li \<noteq> Missing) = (extractFile li \<noteq> None)"
    unfolding kind[symmetric] by (auto simp: sourceKind_of_def split: option.splits file_entry.splits)
  have "\<And>xs. List.map_filter extractFile xs =
          map (\<lambda>li. the (extractFile li)) (filter (\<lambda>li. extractFile li \<noteq> None) xs)"
    by (simp add: List.map_filter_def comp_def)
  then show ?thesis using kind carried by (simp add: extractFiles_def missing)
qed

section \<open>The allowed origin\<close>

lemma allow_origin_header_names:
  "toLowerCase ''Access-Control-Allow-Origin'' \<noteq> toLowerCase ''Vary''"
  "toLowerCase ''Access-Control-Allow-Origin'' \<noteq> toLowerCase ''Access-Control-Allow-Methods''"
  "toLowerCase ''Access-Control-Allow-Origin'' \<noteq> toLowerCase ''Access-Control-Allow-Headers''"
  "toLowerCase ''Access-Control-Allow-Origin'' \<noteq> toLowerCase ''Access-Control-Allow-Credentials''"
  "toLowerCase ''Access-Control-Allow-Origin'' \<noteq> toLowerCase ''Access-Control-Max-Age''"
  by (simp_all add: toLowerCase_def lowerChar_def)

lemma setCorsHeaders_allow_origin:
  "getHeader (setCorsHeaders w req m res) ''Access-Control-Allow-Origin'' =
     Some (if requestOrigin w req \<in> set allowedOrigins then requestOrigin w req
           else ''https://sain-pdc-test.myshopify.com'')"
  by (simp only: setCorsHeaders_def Let_def getHeader_setHeader_other[OF allow_origin_header_names(1)]
      getHeader_setHeader_other[OF allow_origin_header_names(2)]
      getHeader_setHeader_other[OF allow_origin_header_names(3)]
      getHeader_setHeader_other[OF allow_origin_header_names(4)]
      getHeader_setHeader_other[OF allow_origin_header_names(5)]
      getHeader_setHeader_same)

lemma setCorsHeaders_simple_allow_origin:
  "getHeader (snd (setCorsHeaders_simple req res)) ''Access-Control-Allow-Origin'' =
     Some (if truthyS (req_origin req) \<and> the (req_origin req) \<in> set allowedOrigins_simple
           then the (req_origin req)
           else ''https://sain-pdc-test.myshopify.com'')"
proof -
  have "getHeader (snd (setCorsHeaders_simple req res)) ''Access-Control-Allow-Origin'' =
     getHeader (if truthyS (req_origin req) \<and> the (req_origin req) \<in> set allowedOrigins_simple
                  then setHeader ''Access-Control-Allow-Origin'' (the (req_origin req)) res
                  else setHeader ''Access-Control-Allow-Origin'' ''https://sain-pdc-test.myshopify.com'' res)
       ''Access-Control-Allow-Origin''"
    by (simp only: setCorsHeaders_simple_def Let_def snd_conv
        getHeader_setHeader_other[OF allow_origin_header_names(1)]
        getHeader_setHeader_other[OF allow_origin_header_names(2)]
        getHeader_setHeader_other[OF allow_origin_header_names(3)]
        getHeader_setHeader_other[OF allow_origin_header_names(4)]
        getHeader_setHeader_other[OF allow_origin_header_names(5)])
  then show ?thesis by (simp add: getHeader_setHeader_same)
qed

lemma requestOrigin_cases:
  "requestOrigin w req =
     (if truthyS (req_origin req) then the (req_origin req)
      else if truthyS (req_referer req)
           then (case URL_origin w (the (req_referer req)) of None \<Rightarrow> [] | Some origin \<Rightarrow> origin)
           else [])"
  by (auto simp: requestOrigin_def orS_def truthyS_def Let_def split: option.splits)

lemma default_origin_allowed:
  "''https://sain-pdc-test.myshopify.com'' \<in> set allowedOrigins"
  "''https://sain-pdc-test.myshopify.com'' \<in> set allowedOrigins_simple"
  by (simp_all add: allowedOrigins_def allowedOrigins_simple_def)

theorem allow_origin_counterexample:
  "req_origin request_with_referer = None
   \<and> getHeader (setCorsHeaders example_world request_with_referer ''GET,POST,OPTIONS'' emptyResponse)
        ''Access-Control-Allow-Origin'' = Some ''http://localhost:3000''
   \<and> ''http://localhost:3000'' \<noteq> ''https://sain-pdc-test.myshopify.com''"
  by code_simp

text \<open>
  C9, amended. The copy of \<open>setCorsHeaders\<close> that reads the Origin header only sets
  Access-Control-Allow-Origin to the request's Origin exactly when that origin is present,
  not empty and in its allow-list, and to the default store domain otherwise. The
  \<open>setCorsHeaders\<close> of cors-config.js does the same with its own allow-list when the
  Origin header is present and not empty; when it is absent or empty, the value is the
  origin parsed from the Referer header if there is one, it parses and its origin is in
  the allow-list, and the default store domain otherwise. In both, the value set is a
  member of the allow-list: an origin outside it is never echoed.
\<close>

theorem allow_origin_amended:
  "getHeader (snd (setCorsHeaders_simple req res)) ''Access-Control-Allow-Origin'' =
     Some (if truthyS (req_origin req) \<and> the (req_origin req) \<in> set allowedOrigins_simple
           then the (req_origin req)
           else ''https://sain-pdc-test.myshopify.com'')
   \<and> getHeader (setCorsHeaders w req m res) ''Access-Control-Allow-Origin'' =
     Some (if truthyS (req_origin req)
           then (if the (req_origin req) \<in> set allowedOrigins then the (req_origin req)
                 else ''https://sain-pdc-test.myshopify.com'')
           else if truthyS (req_referer req)
           then (case URL_origin w (the (req_referer req)) of
                   None \<Rightarrow> ''https://sain-pdc-test.myshopify.com''
                 | Some origin \<Rightarrow>
                     if origin \<in> set allowedOrigins then origin
                     else ''https://sain-pdc-test.myshopify.com'')
           else ''https://sain-pdc-test.myshopify.com'')
   \<and> getHeader (snd (setCorsHeaders_simple req res)) ''Access-Control-Allow-Origin''
        \<in> set (map Some allowedOrigins_simple)
   \<and> getHeader (setCorsHeaders w req m res) ''Access-Control-Allow-Origin''
        \<in> set (map Some allowedOrigins)"
proof -
  have empty_not_allowed: "[] \<notin> set allowedOrigins" by (simp add: allowedOrigins_def)
  have a: "getHeader (setCorsHeaders w req m res) ''Access-Control-Allow-Origin'' =
     Some (if truthyS (req_origin req)
           then (if the (req_origin req) \<in> set allowedOrigins then the (req_origin req)
                 else ''https://sain-pdc-test.myshopify.com'')
           else if truthyS (req_referer req)
           then (case URL_origin w (the (req_referer req)) of
                   None \<Rightarrow> ''https://sain-pdc-test.myshopify.com''
                 | Some origin \<Rightarrow>
                     if origin \<in> set allowedOrigins then origin
                     else ''https://sain-pdc-test.myshopify.com'')
           else ''https://sain-pdc-test.myshopify.com'')"
    using empty_not_allowed
    by (simp add: setCorsHeaders_allow_origin requestOrigin_cases split: option.splits)
  have b: "getHeader (setCorsHeaders w req m res) ''Access-Control-Allow-Origin''
        \<in> set (map Some allowedOrigins)"
    using default_origin_allowed(1) by (simp add: setCorsHeaders_allow_origin)
  have c: "getHeader (snd (setCorsHeaders_simple req res)) ''Access-Control-Allow-Origin''
        \<in> set (map Some allowedOrigins_simple)"
    using default_origin_allowed(2) by (simp add: setCorsHeaders_simple_allow_origin)
  show ?thesis using a b c setCorsHeaders_simple_allow_origin[of req res] by blast
qed

section \<open>The resolution of indirect references\<close>

lemma find_key_map_of: "find (\<lambda>x. fst x = k) xs = None \<longleftrightarrow> map_of xs k = None"
  by (induction xs) auto

lemma find_key_Some: "find (\<lambda>x. fst x = k) xs = Some f \<Longrightarrow> map_of xs k = Some (snd f)"
  by (induction xs) (auto split: if_splits)

lemma find_as_filter: "find P xs = (case filter P xs of [] \<Rightarrow> None | x # ys \<Rightarrow> Some x)"
  by (induction xs) auto

lemma getField_truthy: "truthyS (getField r k) \<longleftrightarrow> fieldValue r k \<noteq> []"
  by (auto simp: getField_def fieldValue_def truthyS_def find_key_map_of
      dest: find_key_Some split: option.splits)

lemma getField_value: "truthyS (getField r k) \<Longrightarrow> the (getField r k) = fieldValue r k"
  by (auto simp: getField_def fieldValue_def truthyS_def find_key_map_of
      dest: find_key_Some split: option.splits)

lemma startsWith_nonempty: "p \<noteq> [] \<Longrightarrow> startsWith s p \<Longrightarrow> s \<noteq> []"
  by (auto simp: startsWith_def)

lemma split_no_sep: "sep \<notin> set s \<Longrightarrow> split sep s = [s]"
  by (induction s) auto

lemma split_cons_nonempty: "split sep s \<noteq> []"
  by (induction s) (auto split: list.splits)

lemma split_at_sep:
  "sep \<notin> set a \<Longrightarrow> split sep (a @ sep # b) = a # split sep b"
  by (induction a) (auto simp: split_cons_nonempty split: list.splits)

lemma hd_split: "hd (split sep s) = takeWhile (\<lambda>c. c \<noteq> sep) s"
  by (induction s) (auto split: list.splits simp: split_cons_nonempty)

lemma split_second:
  assumes "sep \<in> set d"
  shows "split sep d ! 1 = takeWhile (\<lambda>c. c \<noteq> sep) (tl (dropWhile (\<lambda>c. c \<noteq> sep) d))"
proof -
  let ?a = "takeWhile (\<lambda>c. c \<noteq> sep) d" and ?r = "dropWhile (\<lambda>c. c \<noteq> sep) d"
  have r: "?r \<noteq> []" using assms by (simp add: dropWhile_eq_Nil_conv)
  then have hd: "hd ?r = sep" using hd_dropWhile[of "\<lambda>c. c \<noteq> sep" d] by simp
  have d: "d = ?a @ sep # tl ?r"
  proof -
    have "d = ?a @ ?r" by simp
    also have "?r = sep # tl ?r" using r hd by (cases ?r) auto
    finally show ?thesis .
  qed
  have na: "sep \<notin> set ?a" by (auto dest: set_takeWhileD)
  have "split sep d = split sep (?a @ sep # tl ?r)"
    using d by (rule arg_cong[where f = "split sep"])
  also have "\<dots> = ?a # split sep (tl ?r)" using na by (rule split_at_sep)
  finally have "split sep d ! 1 = hd (split sep (tl ?r))"
    by (simp add: hd_conv_nth split_cons_nonempty)
  then show ?thesis by (simp only: hd_split)
qed

lemma payload_spec_split:
  "(if CHR '','' \<in> set d then split CHR '','' d ! 1 else d) = payload_spec d"
  by (cases "CHR '','' \<in> set d") (simp_all only: payload_spec_def split_second if_True if_False)

lemma recordByHandle_spec:
  "recordByHandle (shopGql w (MetaobjectByHandleQuery ident ''uploaded_file'')) = exactHandleRecord w ident"
  by (auto simp: recordByHandle_def exactHandleRecord_def
      split: outcome.splits option.splits gql_data.splits)

lemma file_id_field:
  "(case find (\<lambda>x. fst x = ''file_id'') fs of None \<Rightarrow> False | Some f \<Rightarrow> snd f = Some ident)
   = (map_of fs ''file_id'' = Some (Some ident))"
  by (induction fs) auto

lemma recordFromList_spec:
  "recordFromList (shopGql w (MetaobjectsQuery ''uploaded_file'' 100)) ident =
     (case filter (\<lambda>r. map_of (mo_fields r) ''file_id'' = Some (Some ident)) (listedRecords w) of
        [] \<Rightarrow> None
      | r # rs \<Rightarrow> Some r)"
  unfolding recordFromList_def file_id_field
  by (auto simp: listedRecords_def find_as_filter Let_def
      split: outcome.splits option.splits gql_data.splits)

lemma getFileFromMetaobject_spec:
  "getFileFromMetaobject w ident =
     (case fst (resolve_spec w ident) of None \<Rightarrow> None | Some r \<Rightarrow> fileInfoOfRecord r,
      snd (resolve_spec w ident))"
  by (auto simp: getFileFromMetaobject_def Let_def recordByHandle_spec recordFromList_spec
      resolve_spec_def split: option.splits list.splits)

lemma fileInfoOfRecord_spec:
  "fileInfoOfRecord r =
     (if startsWith (fieldValue r ''file_url'') ''http://''
         \<or> startsWith (fieldValue r ''file_url'') ''https://''
      then Some (UrlInfo (fieldValue r ''file_url'')
                   (the (orS (getField r ''file_name'') (Some ''download.bin''))))
      else if fieldValue r ''file_data'' \<noteq> []
      then Some (Base64Info (fieldValue r ''file_data'')
                   (the (orS (getField r ''file_name'') (Some ''download.bin''))))
      else None)"
proof (cases "truthyS (getField r ''file_url'')")
  case True
  then show ?thesis
    by (simp add: fileInfoOfRecord_def Let_def getField_value getField_truthy[symmetric])
next
  case False
  then have "fieldValue r ''file_url'' = []" by (simp add: getField_truthy)
  then have "\<not> (startsWith (fieldValue r ''file_url'') ''http://''
         \<or> startsWith (fieldValue r ''file_url'') ''https://'')"
    by (simp add: startsWith_def)
  with False show ?thesis
    by (simp add: fileInfoOfRecord_def Let_def getField_value getField_truthy[symmetric])
qed

lemma downloadFileFromShopify_calls: "snd (downloadFileFromShopify w u) = [CallFetch u]"
  by (simp add: downloadFileFromShopify_def)

text \<open>
  C3: the materialization of an IndirectReference entry is the one the specification
  words. The exact-handle query is issued first; the list query, for the first 100
  records, is issued only when the first gave no record (an empty answer, an error answer
  or an exception), and the record taken from it is the first whose identifier field
  equals the entry's identifier. A record whose URL field starts with http:// or https://
  is fetched by \<open>downloadFileFromShopify\<close>, which is also all the direct path does;
  otherwise a non-empty inline payload is decoded from base64; with neither, or with no
  record, the materialization throws.
\<close>

theorem indirect_reference_resolution:
  "fetchFileBuffer w (Metaobject_ref n ident) = materialize_spec w ident
   \<and> snd (getFileFromMetaobject w ident) = snd (resolve_spec w ident)
   \<and> fetchFileBuffer w (Shopify_url n u) = downloadFileFromShopify w u"
proof -
  have calls: "snd (getFileFromMetaobject w ident) = snd (resolve_spec w ident)"
    by (simp add: getFileFromMetaobject_spec)
  have direct: "fetchFileBuffer w (Shopify_url n u) = downloadFileFromShopify w u"
    by (simp add: fetchFileBuffer_def)
  have dl: "\<And>v cs. (case downloadFileFromShopify w v of (r, calls') \<Rightarrow> (r, cs @ calls'))
                 = (fst (downloadFileFromShopify w v), cs @ [CallFetch v])"
    by (simp add: downloadFileFromShopify_def)
  have indirect: "fetchFileBuffer w (Metaobject_ref n ident) = materialize_spec w ident"
  proof (cases "fst (resolve_spec w ident)")
    case None
    then show ?thesis
      by (simp add: fetchFileBuffer_def getFileFromMetaobject_spec materialize_spec_def split_beta)
  next
    case (Some r)
    then show ?thesis
      by (simp add: fetchFileBuffer_def getFileFromMetaobject_spec materialize_spec_def split_beta
          fileInfoOfRecord_spec dl payload_spec_split Let_def downloadFileFromShopify_calls)
  qed
  show ?thesis using indirect calls direct by blast
qed

lemma resolution_examples:
  "fetchFileBuffer example_world (Metaobject_ref ''c.stl'' ''file_c'') =
     (Returns ''solid c'', [CallShopGql (MetaobjectByHandleQuery ''file_c'' ''uploaded_file'')])"
  "fetchFileBuffer example_world (Metaobject_ref ''d.stl'' ''file_d'') =
     (Returns ''solid a'',
      [CallShopGql (MetaobjectByHandleQuery ''file_d'' ''uploaded_file''),
       CallShopGql (MetaobjectsQuery ''uploaded_file'' 100),
       CallFetch ''https://cdn.shopify.com/a.stl''])"
  "fetchFileBuffer example_world (Metaobject_ref ''e.stl'' ''file_missing'') =
     (Throws lit_metaobject_failed,
      [CallShopGql (MetaobjectByHandleQuery ''file_missing'' ''uploaded_file''),
       CallShopGql (MetaobjectsQuery ''uploaded_file'' 100)])"
  by code_simp+

section \<open>The contents of the archive\<close>

lemma map_of_zip_file: "map_of (zip_file n d z) = (map_of z)(n \<mapsto> d)"
  by (induction z) (auto simp: fun_eq_iff)

lemma names_zip_file: "set (map fst (zip_file n d z)) = insert n (set (map fst z))"
  by (induction z) auto

lemma distinct_zip_file: "distinct (map fst z) \<Longrightarrow> distinct (map fst (zip_file n d z))"
  by (induction z) (auto simp: names_zip_file[simplified])

lemma zip_file_fresh: "n \<notin> set (map fst z) \<Longrightarrow> zip_file n d z = z @ [(n, d)]"
  by (induction z) auto

text \<open>
  Whatever the names are, the archive has one entry per name, and it holds under a name
  what the last file entry filed under that name put there.
\<close>

lemma foldl_packFile_map_of:
  "map_of (archive_of (foldl (packFile w) st files)) =
     map_of (archive_of st) ++ map_of (rev (map (\<lambda>f. (archiveName w f, archiveContent w f)) files))"
proof (induction files arbitrary: st)
  case Nil
  show ?case by simp
next
  case (Cons f files)
  show ?case
    by (auto simp: Cons.IH packFile_archive map_of_zip_file map_add_def fun_eq_iff
        split: option.splits)
qed

lemma packFiles_map_of:
  "map_of (archive_of (packFiles w files)) =
     map_of (rev (map (\<lambda>f. (archiveName w f, archiveContent w f)) files))"
  by (simp add: packFiles_def foldl_packFile_map_of)

lemma foldl_packFile_names:
  "set (map fst (archive_of (foldl (packFile w) st files))) =
     set (map fst (archive_of st)) \<union> archiveName w ` set files"
  by (induction files arbitrary: st) (auto simp: packFile_archive names_zip_file[simplified])

lemma foldl_packFile_distinct:
  "distinct (map fst (archive_of st)) \<Longrightarrow>
   distinct (map fst (archive_of (foldl (packFile w) st files)))"
  by (induction files arbitrary: st) (simp_all add: packFile_archive distinct_zip_file)

lemma packFiles_length: "length (archive_of (packFiles w files)) = card (archiveName w ` set files)"
proof -
  have d: "distinct (map fst (archive_of (packFiles w files)))"
    unfolding packFiles_def by (rule foldl_packFile_distinct) simp
  have s: "set (map fst (archive_of (packFiles w files))) = archiveName w ` set files"
    unfolding packFiles_def by (simp only: foldl_packFile_names) simp
  have "length (archive_of (packFiles w files)) = length (map fst (archive_of (packFiles w files)))"
    by simp
  also have "\<dots> = card (set (map fst (archive_of (packFiles w files))))"
    using d by (rule distinct_card[symmetric])
  finally show ?thesis by (simp only: s)
qed

text \<open>
  When the names filed under are pairwise different, nothing is replaced: the archive is
  the list of the entries' names and contents, in order, one per file entry.
\<close>

lemma foldl_packFile_fresh:
  "distinct (map (archiveName w) files) \<Longrightarrow>
   set (map fst (archive_of st)) \<inter> archiveName w ` set files = {} \<Longrightarrow>
   archive_of (foldl (packFile w) st files) =
     archive_of st @ map (\<lambda>f. (archiveName w f, archiveContent w f)) files"
proof (induction files arbitrary: st)
  case Nil
  show ?case by simp
next
  case (Cons f files)
  from Cons.prems(2) have fresh: "archiveName w f \<notin> set (map fst (archive_of st))" by auto
  have step: "archive_of (packFile w st f) = archive_of st @ [(archiveName w f, archiveContent w f)]"
    by (simp only: packFile_archive zip_file_fresh[OF fresh])
  have "set (map fst (archive_of (packFile w st f))) \<inter> archiveName w ` set files = {}"
    using Cons.prems by (auto simp: step)
  with Cons.prems(1) have
    "archive_of (foldl (packFile w) (packFile w st f) files) =
       archive_of (packFile w st f) @ map (\<lambda>f. (archiveName w f, archiveContent w f)) files"
    by (intro Cons.IH) simp_all
  then show ?case by (simp add: step)
qed

lemma packFiles_fresh:
  "distinct (map (archiveName w) files) \<Longrightarrow>
   archive_of (packFiles w files) = map (\<lambda>f. (archiveName w f, archiveContent w f)) files"
  unfolding packFiles_def by (subst foldl_packFile_fresh) simp_all

text \<open>
  The other direction of the 200 response: with the order found, the archive library
  loaded and at least one entry materialized, the answer is 200 and its body is the
  archive the packing loop built; the external calls are the order lookup followed by
  each entry's calls, in order.
\<close>

lemma handler_packed:
  assumes "orderFound w req draftOrder" and "JSZip w"
    and "\<exists>file \<in> set (extractFiles draftOrder). succeeds w file"
  shows "status (fst (handler w req)) = 200
     \<and> body (fst (handler w req)) = ZipBuffer (archive_of (packFiles w (extractFiles draftOrder)))
     \<and> snd (handler w req) =
         CallShopGql (DraftOrderQuery (the (req_draftOrderId req)))
           # concat (map (\<lambda>f. snd (fetchFileBuffer w f)) (extractFiles draftOrder))"
proof -
  from assms(3) have ne: "extractFiles draftOrder \<noteq> []" by auto
  from assms(3) have "filter (succeeds w) (extractFiles draftOrder) \<noteq> []"
    by (simp add: filter_empty_conv)
  then have s: "successCount (packFiles w (extractFiles draftOrder)) \<noteq> 0"
    by (simp add: packFiles_counts)
  show ?thesis
    by (simp add: handler_orderFound[OF assms(1)] sendOrderFiles_packed[OF ne assms(2) s]
        packFiles_calls)
qed

text \<open>
  C1 on an order with two line items of the same display name: both are fetched and
  counted (two successes, one failure), the answer is 200, and the archive holds two
  entries, not three: the bytes of the first file are gone.
\<close>

theorem same_names_archive:
  "status (fst (handler example_world (example_request ''GET'' (Some ''gid://shopify/DraftOrder/2'')))) = 200
   \<and> length (filter (succeeds example_world) (extractFiles order_same_names)) = 2
   \<and> length (filter (\<lambda>f. \<not> succeeds example_world f) (extractFiles order_same_names)) = 1
   \<and> body (fst (handler example_world (example_request ''GET'' (Some ''gid://shopify/DraftOrder/2'')))) =
       ZipBuffer
         [(''part.stl'', Binary ''solid a2''),
          (lit_error_prefix @ ''b.stl.txt'',
           Text (lit_file @ lit_download_failed @ '': '' @ lit_download_failed @ '': 404 Not Found''))]"
  by code_simp

text \<open>
  C6 on the same order: its first entry is a direct URL whose fetch gives the bytes
  \<open>solid a\<close>, and the archive of the 200 response holds other bytes under that entry's
  display name and the fetched bytes under no name.
\<close>

theorem same_names_round_trip:
  "extractFiles order_same_names ! 0 = Shopify_url ''part.stl'' ''https://cdn.shopify.com/a.stl''
   \<and> fetch example_world ''https://cdn.shopify.com/a.stl'' = Response True 200 ''OK'' (Returns ''solid a'')
   \<and> status (fst (handler example_world (example_request ''GET'' (Some ''gid://shopify/DraftOrder/2'')))) = 200
   \<and> (case body (fst (handler example_world (example_request ''GET'' (Some ''gid://shopify/DraftOrder/2'')))) of
         ZipBuffer z \<Rightarrow> map_of z ''part.stl'' = Some (Binary ''solid a2'')
                         \<and> Binary ''solid a'' \<notin> set (map snd z)
       | _ \<Rightarrow> False)"
  by code_simp

end
